theory Spec2Isabelle
  imports Main "HOL-Library.AList"
begin

section \<open>JavaScript values\<close>

text \<open>
  The manifest holds what \<open>JSON.parse\<close> produces and what callers store: scalars, arrays
  and plain objects. An object is the list of its own enumerable properties in
  enumeration order; a JavaScript object has each key once, which \<open>wf_js\<close> states.
  Numbers are integers here: the manifest logic only tests a number for truthiness.
  Values carry no identity: whether two objects with the same contents are one object
  is not told by the value, and neither is the prototype of an object.
\<close>

datatype jsval =
    JUndefined
  | JNull
  | JBool bool
  | JNum int
  | JStr string
  | JArr "jsval list"
  | JObj "(string \<times> jsval) list"

text \<open>Truthiness, as \<open>||\<close> and \<open>!\<close> read a value.\<close>

fun truthy :: "jsval \<Rightarrow> bool" where
  "truthy JUndefined = False"
| "truthy JNull = False"
| "truthy (JBool b) = b"
| "truthy (JNum n) = (n \<noteq> 0)"
| "truthy (JStr s) = (s \<noteq> [])"
| "truthy (JArr xs) = True"
| "truthy (JObj kvs) = True"

text \<open>\<open>a || b\<close>\<close>

definition js_or :: "jsval \<Rightarrow> jsval \<Rightarrow> jsval" where
  "js_or a b = (if truthy a then a else b)"

text \<open>
  Modelled from the spec: \<open>isObject\<close> of helpers.js (not among the sources), which the
  spec describes as "plain structured objects (not arrays, not scalars)".
\<close>

fun isObject :: "jsval \<Rightarrow> bool" where
  "isObject (JObj kvs) = True"
| "isObject v = False"

text \<open>The values that \<open>===\<close> compares by identity: arrays and objects.\<close>

fun is_reference :: "jsval \<Rightarrow> bool" where
  "is_reference (JArr xs) = True"
| "is_reference (JObj kvs) = True"
| "is_reference v = False"

text \<open>
  A property read \<open>obj[key]\<close> on the bag of own properties: a missing key reads as
  \<open>undefined\<close>.
\<close>

type_synonym props = "string \<rightharpoonup> jsval"

definition js_prop :: "props \<Rightarrow> string \<Rightarrow> jsval" where
  "js_prop m k = (case m k of None \<Rightarrow> JUndefined | Some v \<Rightarrow> v)"

text \<open>The decimal digits of an index, for the keys of the elements of an array.\<close>

function string_of_nat :: "nat \<Rightarrow> string" where
  "string_of_nat n =
     (if n < 10 then [char_of (48 + n)]
      else string_of_nat (n div 10) @ [char_of (48 + n mod 10)])"
  by pat_completeness auto
termination
  by (relation "measure (\<lambda>n. n)") auto

text \<open>
  \<open>Object.entries(v)\<close>: the own enumerable properties of an object, the indexed elements
  of an array, the indexed characters of a string, nothing for a number or a boolean,
  and a \<open>TypeError\<close> (\<open>None\<close>) for \<open>null\<close> and \<open>undefined\<close>.
\<close>

fun indexed :: "nat \<Rightarrow> jsval list \<Rightarrow> (string \<times> jsval) list" where
  "indexed i [] = []"
| "indexed i (x # xs) = (string_of_nat i, x) # indexed (Suc i) xs"

fun object_entries :: "jsval \<Rightarrow> (string \<times> jsval) list option" where
  "object_entries JUndefined = None"
| "object_entries JNull = None"
| "object_entries (JBool b) = Some []"
| "object_entries (JNum n) = Some []"
| "object_entries (JStr s) = Some (indexed 0 (map (\<lambda>c. JStr [c]) s))"
| "object_entries (JArr xs) = Some (indexed 0 xs)"
| "object_entries (JObj kvs) = Some kvs"

text \<open>
  Each object of a value has each of its keys once, at every depth: what JavaScript
  objects are.
\<close>

fun wf_js :: "jsval \<Rightarrow> bool"
  and wf_fields :: "(string \<times> jsval) list \<Rightarrow> bool"
  and wf_elems :: "jsval list \<Rightarrow> bool" where
  "wf_js (JObj kvs) = (distinct (map fst kvs) \<and> wf_fields kvs)"
| "wf_js (JArr xs) = wf_elems xs"
| "wf_js JUndefined = True"
| "wf_js JNull = True"
| "wf_js (JBool b) = True"
| "wf_js (JNum n) = True"
| "wf_js (JStr s) = True"
| "wf_fields [] = True"
| "wf_fields ((k, v) # kvs) = (wf_js v \<and> wf_fields kvs)"
| "wf_elems [] = True"
| "wf_elems (x # xs) = (wf_js x \<and> wf_elems xs)"

section \<open>The manifest\<close>

text \<open>
  An asset of the compilation, as \<open>currentAsset\<close> holds it: its name and its info.
  The info is what a read \<open>info[name]\<close> finds: \<open>None\<close> under a name that reads as
  \<open>undefined\<close>.
\<close>

record asset =
  asset_name :: string
  asset_info :: props

text \<open>
  The state of a \<open>WebpackAssetsManifest\<close> instance: \<open>this.assets\<close>, \<open>this.assetNames\<close>,
  \<open>this.currentAsset\<close>, \<open>this[IS_MERGING]\<close>, the public path of the compiler
  (\<open>compiler.options.output.publicPath\<close>, \<open>None\<close> when there is no compiler or no such
  option), and the messages given to \<open>warn.once\<close>: the cache of messages seen and the
  lines written to the console.
\<close>

record manifest =
  assets :: props
  assetNames :: "string \<rightharpoonup> string"
  currentAsset :: "asset option"
  isMerging :: bool
  compilerPublicPath :: "string option"
  warnCache :: "string set"
  warnLog :: "string list"

subsection \<open>fixKey, setRaw, get\<close>

text \<open>The backslash character (a string literal cannot hold it).\<close>

definition backslash :: char where
  "backslash = CHR 0x5C"

text \<open>
  \<open>fixKey(key)\<close>: \<open>key.replace(/\\/g, '/')\<close> for a string key. Keys are strings in this
  development (the documented parameter type), so the \<open>typeof key === 'string'\<close> test
  holds.
\<close>

definition fixKey :: "string \<Rightarrow> string" where
  "fixKey key = map (\<lambda>c. if c = CHR 0x5C then CHR ''/'' else c) key"

definition setRaw :: "manifest \<Rightarrow> string \<Rightarrow> jsval \<Rightarrow> manifest" where
  "setRaw s key v = s\<lparr>assets := (assets s)(key \<mapsto> v)\<rparr>"

text \<open>\<open>get(key, defaultValue)\<close>: \<open>this.assets[key] || this.assets[this.fixKey(key)] || defaultValue\<close>\<close>

definition get_m :: "manifest \<Rightarrow> string \<Rightarrow> jsval \<Rightarrow> jsval" where
  "get_m s key defaultValue =
     js_or (js_prop (assets s) key) (js_or (js_prop (assets s) (fixKey key)) defaultValue)"

text \<open>
  What the specification says of \<open>get\<close>: the value stored under the raw key, else the
  value stored under the normalized key, else the default.
\<close>

definition get_spec :: "manifest \<Rightarrow> string \<Rightarrow> jsval \<Rightarrow> jsval" where
  "get_spec s key defaultValue =
     (case assets s key of
        Some v \<Rightarrow> v
      | None \<Rightarrow> (case assets s (fixKey key) of Some v \<Rightarrow> v | None \<Rightarrow> defaultValue))"

text \<open>An empty manifest, as the constructor leaves it with the default options.\<close>

definition new_manifest :: manifest where
  "new_manifest =
     \<lparr>assets = Map.empty, assetNames = Map.empty, currentAsset = None, isMerging = False,
      compilerPublicPath = None, warnCache = {}, warnLog = []\<rparr>"

subsection \<open>Options, callbacks and what lives outside the sources\<close>

text \<open>
  What a call can throw. An exception leaves the state as it was when it was thrown, so a
  call that may throw returns the error, if any, beside the state.
\<close>

datatype error =
    TypeError
  | ReadError
  | UserError string
  | LockError
  | FsError
  | EmitError
  | StringifyError

text \<open>\<open>options.merge\<close>: \<open>false\<close>, \<open>true\<close> or \<open>'customize'\<close>.\<close>

datatype mergeOpt = MergeOff | MergeOn | MergeCustomize

text \<open>
  \<open>options.publicPath\<close>: a function of the filename and the manifest, a string, a
  boolean, or \<open>null\<close>. User callbacks are functions of their arguments; a tap of the
  customize hook may also throw.
\<close>

datatype publicPathOpt =
    PPNull
  | PPFun "string \<Rightarrow> manifest \<Rightarrow> jsval"
  | PPStr string
  | PPBool bool

type_synonym customize_tap = "jsval \<Rightarrow> jsval \<Rightarrow> manifest \<Rightarrow> asset option \<Rightarrow> error + jsval"

record options =
  enabled :: bool
  merge :: mergeOpt
  publicPath :: publicPathOpt
  integrity :: bool
  integrityPropertyName :: string
  customize :: "customize_tap list"

text \<open>
  What the sources call and do not define (Node, lodash, the deepmerge package,
  helpers.js), and what a value of the model does not tell, taken as parameters:
  \<^item> \<open>url_resolve\<close>: \<open>url.resolve(from, to)\<close>;
  \<^item> \<open>varType\<close>: \<open>varType(v)\<close> of helpers.js, the type name in the warning;
  \<^item> \<open>has_path\<close>: \<open>has(object, key)\<close> of lodash.has for a key that is not an own
    property of the object, which lodash reads as a path (\<open>main.js\<close> as \<open>js\<close> inside
    \<open>main\<close>) and follows into the values of the object;
  \<^item> \<open>get_path\<close>: \<open>get(this, `currentAsset.info.${name}`, '')\<close> of lodash.get for a
    name with a dot or a bracket, which lodash reads as more than one segment of the
    path, given the info of the current asset;
  \<^item> \<open>deepmerge\<close>: \<open>deepmerge(target, source, { arrayMerge })\<close> of the deepmerge
    package, given the \<open>arrayMerge\<close> option, the target and the source;
  \<^item> \<open>same_object\<close>: whether two arrays or objects with the same contents are one
    object, as \<open>===\<close> asks;
  \<^item> \<open>to_string\<close>: \<open>String(v)\<close>, which a property assignment applies to a key that is
    not a string.
\<close>

record node_env =
  url_resolve :: "string \<Rightarrow> string \<Rightarrow> string"
  varType :: "jsval \<Rightarrow> string"
  has_path :: "props \<Rightarrow> string \<Rightarrow> bool"
  get_path :: "props \<Rightarrow> string \<Rightarrow> jsval"
  deepmerge :: "(jsval list \<Rightarrow> jsval list \<Rightarrow> jsval list) \<Rightarrow> jsval \<Rightarrow> jsval \<Rightarrow> jsval"
  same_object :: "jsval \<Rightarrow> jsval \<Rightarrow> bool"
  to_string :: "jsval \<Rightarrow> string"

text \<open>
  \<open>has(object, key)\<close> of lodash.has: true for a key that is an own property of the
  object; for any other key, what the search along the path gives.
\<close>

definition lodash_has :: "node_env \<Rightarrow> props \<Rightarrow> string \<Rightarrow> bool" where
  "lodash_has env m k = (m k \<noteq> None \<or> has_path env m k)"

text \<open>\<open>has(key)\<close>: \<open>has(this.assets, key) || has(this.assets, this.fixKey(key))\<close>\<close>

definition has_m :: "node_env \<Rightarrow> manifest \<Rightarrow> string \<Rightarrow> bool" where
  "has_m env s key = (lodash_has env (assets s) key \<or> lodash_has env (assets s) (fixKey key))"

text \<open>
  Modelled from the spec: \<open>warn.once\<close> of helpers.js (not among the sources): "warning
  emitted exactly once per distinct message". A message already in the cache is dropped;
  a new one is written and cached.
\<close>

definition warn_once :: "string \<Rightarrow> manifest \<Rightarrow> manifest" where
  "warn_once message s =
     (if message \<in> warnCache s then s
      else s\<lparr>warnLog := warnLog s @ [message], warnCache := insert message (warnCache s)\<rparr>)"

subsection \<open>getPublicPath\<close>

definition getPublicPath :: "node_env \<Rightarrow> options \<Rightarrow> manifest \<Rightarrow> jsval \<Rightarrow> jsval" where
  "getPublicPath env opts s filename =
     (case filename of
        JStr f \<Rightarrow>
          (case publicPath opts of
             PPFun g \<Rightarrow> g f s
           | PPStr p \<Rightarrow> JStr (url_resolve env p f)
           | PPBool True \<Rightarrow>
               JStr (url_resolve env (case compilerPublicPath s of None \<Rightarrow> [] | Some p \<Rightarrow> p) f)
           | _ \<Rightarrow> filename)
      | _ \<Rightarrow> filename)"

subsection \<open>set and the customize hook\<close>

text \<open>
  \<open>hooks.customize.call(entry, original, manifest, asset)\<close> of a \<open>SyncWaterfallHook\<close>:
  the taps run in registration order; a tap that returns something other than
  \<open>undefined\<close> replaces the entry handed to the next tap.
\<close>

fun customize_call ::
  "customize_tap list \<Rightarrow> jsval \<Rightarrow> jsval \<Rightarrow> manifest \<Rightarrow> asset option \<Rightarrow> error + jsval" where
  "customize_call [] entry original m a = Inr entry"
| "customize_call (t # ts) entry original m a =
     (case t entry original m a of
        Inl e \<Rightarrow> Inl e
      | Inr r \<Rightarrow> customize_call ts (if r = JUndefined then entry else r) original m a)"

definition entry_of :: "string \<Rightarrow> jsval \<Rightarrow> jsval" where
  "entry_of k v = JObj [(''key'', JStr k), (''value'', v)]"

text \<open>
  \<open>let { key = fixedKey, value = publicPath } = entry\<close>: a property that is missing or
  \<open>undefined\<close> takes the default.
\<close>

definition field_or :: "jsval \<Rightarrow> string \<Rightarrow> jsval \<Rightarrow> jsval" where
  "field_or entry name dflt =
     (case entry of
        JObj kvs \<Rightarrow>
          (case map_of kvs name of
             None \<Rightarrow> dflt
           | Some v \<Rightarrow> if v = JUndefined then dflt else v)
      | _ \<Rightarrow> dflt)"

text \<open>
  A property name that lodash reads as one segment of a path: it is not empty and has no
  dot and no bracket.
\<close>

definition one_segment :: "string \<Rightarrow> bool" where
  "one_segment name =
     (name \<noteq> [] \<and> list_all (\<lambda>c. c \<noteq> CHR ''.'' \<and> c \<noteq> CHR ''['' \<and> c \<noteq> CHR '']'') name)"

text \<open>
  \<open>get(this, `currentAsset.info.${this.options.integrityPropertyName}`, '')\<close> of
  lodash.get. Without a current asset the path ends at \<open>currentAsset\<close> and the default
  is returned. For a name of one segment the path is \<open>currentAsset\<close>, \<open>info\<close> and
  the name: the default stands in when the info has no such property or the property is
  \<open>undefined\<close>. Any other name is read as a longer path.
\<close>

definition asset_integrity :: "node_env \<Rightarrow> options \<Rightarrow> manifest \<Rightarrow> jsval" where
  "asset_integrity env opts s =
     (case currentAsset s of
        None \<Rightarrow> JStr []
      | Some a \<Rightarrow>
          if one_segment (integrityPropertyName opts) then
            (case asset_info a (integrityPropertyName opts) of
               None \<Rightarrow> JStr []
             | Some v \<Rightarrow> if v = JUndefined then JStr [] else v)
          else get_path env (asset_info a) (integrityPropertyName opts))"

text \<open>
  \<open>a === b\<close>: two scalars are equal when they are the same value; two arrays or
  objects when they are one object, which has the contents of both.
\<close>

definition strict_equal :: "node_env \<Rightarrow> jsval \<Rightarrow> jsval \<Rightarrow> bool" where
  "strict_equal env a b = (a = b \<and> (is_reference a \<longrightarrow> same_object env a b))"

text \<open>
  No tap of the hook returned an entry: the call returns the object that it was given,
  the one that \<open>set\<close> built with \<open>publicPath\<close> as its value.
\<close>

definition untouched ::
  "customize_tap list \<Rightarrow> jsval \<Rightarrow> jsval \<Rightarrow> manifest \<Rightarrow> asset option \<Rightarrow> bool" where
  "untouched taps entry original m a = list_all (\<lambda>t. t entry original m a = Inr JUndefined) taps"

text \<open>
  \<open>value === publicPath\<close> after the destructuring. An entry without a \<open>value\<close> takes
  \<open>publicPath\<close> itself, and the entry that \<open>set\<close> built (\<open>kept\<close>) holds it; the
  \<open>value\<close> of an entry that a tap returned is compared with it.
\<close>

definition value_unchanged :: "node_env \<Rightarrow> bool \<Rightarrow> jsval \<Rightarrow> jsval \<Rightarrow> bool" where
  "value_unchanged env kept entry pp =
     (field_or entry ''value'' JUndefined = JUndefined \<or> kept
      \<or> strict_equal env (field_or entry ''value'' pp) pp)"

text \<open>\<open>this.assets[key] = ...\<close>: a key that is not a string is converted to one.\<close>

definition property_key :: "node_env \<Rightarrow> jsval \<Rightarrow> string" where
  "property_key env k = (case k of JStr name \<Rightarrow> name | _ \<Rightarrow> to_string env k)"

definition unexpected_type_message :: "node_env \<Rightarrow> jsval \<Rightarrow> string" where
  "unexpected_type_message env entry = ''Unexpected customize() return type: '' @ varType env entry"

definition set_m ::
  "node_env \<Rightarrow> options \<Rightarrow> manifest \<Rightarrow> string \<Rightarrow> jsval \<Rightarrow> error option \<times> manifest" where
  "set_m env opts s key v =
     (if isMerging s \<and> merge opts \<noteq> MergeCustomize then (None, setRaw s key v)
      else
        let fixedKey = fixKey key;
            pp = getPublicPath env opts s v;
            kept = untouched (customize opts) (entry_of fixedKey pp) (entry_of key v) s (currentAsset s)
        in case customize_call (customize opts) (entry_of fixedKey pp) (entry_of key v) s
                  (currentAsset s) of
             Inl e \<Rightarrow> (Some e, s)
           | Inr entry \<Rightarrow>
               if entry = JBool False then (None, s)
               else if isObject entry then
                 let key' = field_or entry ''key'' (JStr fixedKey);
                     value' = field_or entry ''value'' pp;
                     value'' =
                       (if value_unchanged env kept entry pp \<and> integrity opts
                        then JObj [(''src'', value'), (''integrity'', asset_integrity env opts s)]
                        else value')
                 in (None, setRaw s (property_key env key') value'')
               else (None, setRaw (warn_once (unexpected_type_message env entry) s) fixedKey pp))"

subsection \<open>maybeMerge\<close>

text \<open>\<open>const arrayMerge = (destArray, srcArray) => srcArray;\<close> of \<open>maybeMerge\<close>\<close>

definition arrayMerge :: "jsval list \<Rightarrow> jsval list \<Rightarrow> jsval list" where
  "arrayMerge destArray srcArray = srcArray"

text \<open>
  The loop over \<open>Object.entries(data)\<close>. An exception of \<open>set\<close> ends the loop with
  the entries stored so far.
\<close>

fun merge_entries ::
  "node_env \<Rightarrow> options \<Rightarrow> (string \<times> jsval) list \<Rightarrow> manifest \<Rightarrow> error option \<times> manifest" where
  "merge_entries env opts [] s = (None, s)"
| "merge_entries env opts ((key, oldValue) # rest) s =
     (if has_m env s key then
        (let currentValue = get_m s key JUndefined in
         if isObject oldValue \<and> isObject currentValue then
           (case set_m env opts s key (deepmerge env arrayMerge oldValue currentValue) of
              (Some e, s') \<Rightarrow> (Some e, s')
            | (None, s') \<Rightarrow> merge_entries env opts rest s')
         else merge_entries env opts rest s)
      else
        (case set_m env opts s key oldValue of
           (Some e, s') \<Rightarrow> (Some e, s')
         | (None, s') \<Rightarrow> merge_entries env opts rest s'))"

text \<open>
  The \<open>try\<close> block of \<open>maybeMerge\<close>. \<open>parsed\<close> is the result of
  \<open>JSON.parse(fs.readFileSync(this.getOutputPath(), ...))\<close>: \<open>None\<close> when the file is
  missing or unreadable or its text is not JSON (either call throws).
\<close>

definition maybeMerge_try ::
  "node_env \<Rightarrow> options \<Rightarrow> jsval option \<Rightarrow> manifest \<Rightarrow> error option \<times> manifest" where
  "maybeMerge_try env opts parsed s =
     (let s1 = s\<lparr>isMerging := True\<rparr> in
      case parsed of
        None \<Rightarrow> (Some ReadError, s1)
      | Some data \<Rightarrow>
          (case object_entries data of
             None \<Rightarrow> (Some TypeError, s1)
           | Some kvs \<Rightarrow> merge_entries env opts kvs s1))"

text \<open>
  \<open>maybeMerge\<close>: \<open>catch (err) {}\<close> drops the exception of the \<open>try\<close> block and
  \<open>finally\<close> clears the flag.
\<close>

definition maybeMerge ::
  "node_env \<Rightarrow> options \<Rightarrow> jsval option \<Rightarrow> manifest \<Rightarrow> error option \<times> manifest" where
  "maybeMerge env opts parsed s =
     (if merge opts \<noteq> MergeOff then
        (case maybeMerge_try env opts parsed s of
           (err, s2) \<Rightarrow> (None, s2\<lparr>isMerging := False\<rparr>))
      else (None, s))"

subsection \<open>The lock and the two writes\<close>

text \<open>
  The world outside the process: the advisory locks that are held, by path, and the
  files written.
\<close>

record world =
  locks :: "string set"
  files :: "string \<rightharpoonup> string"

text \<open>
  Modelled from the spec: \<open>lock\<close>, \<open>unlock\<close>, \<open>lockSync\<close> and \<open>unlockSync\<close> of
  helpers.js (not among the sources): "an advisory, cooperative file lock keyed on the
  target manifest path", whose acquisition "may itself fail". A lock that is held cannot
  be acquired; releasing removes it. The awaited and the synchronous variants do the
  same to the world.
\<close>

definition lock :: "string \<Rightarrow> world \<Rightarrow> error option \<times> world" where
  "lock path w =
     (if path \<in> locks w then (Some LockError, w)
      else (None, w\<lparr>locks := insert path (locks w)\<rparr>))"

definition unlock :: "string \<Rightarrow> world \<Rightarrow> error option \<times> world" where
  "unlock path w = (None, w\<lparr>locks := locks w - {path}\<rparr>)"

definition lockSync :: "string \<Rightarrow> world \<Rightarrow> error option \<times> world" where
  "lockSync path w = lock path w"

definition unlockSync :: "string \<Rightarrow> world \<Rightarrow> error option \<times> world" where
  "unlockSync path w = unlock path w"

text \<open>
  The calls into webpack and Node that the two writes make, taken as parameters:
  reading and parsing the manifest on disk, \<open>this.toString()\<close> (\<open>JSON.stringify\<close>
  over the transform hook, which may throw), \<open>compilation.emitAsset\<close>, \<open>path.dirname\<close>,
  \<open>fs.promises.mkdir\<close> and \<open>fs.promises.writeFile\<close>.
\<close>

record host =
  readManifest :: "world \<Rightarrow> jsval option"
  manifestToString :: "manifest \<Rightarrow> error + string"
  emitAsset :: "string \<Rightarrow> string \<Rightarrow> world \<Rightarrow> error option \<times> world"
  dirname :: "string \<Rightarrow> string"
  mkdir :: "string \<Rightarrow> world \<Rightarrow> error option \<times> world"
  writeFile :: "string \<Rightarrow> string \<Rightarrow> world \<Rightarrow> error option \<times> world"

text \<open>
  \<open>emitAssetsManifest(compilation)\<close>, with \<open>output\<close> the path that
  \<open>getManifestPath\<close> computed. Each statement runs when the one before it returned
  without an exception.
\<close>

definition emitAssetsManifest ::
  "host \<Rightarrow> node_env \<Rightarrow> options \<Rightarrow> string \<Rightarrow> manifest \<Rightarrow> world
     \<Rightarrow> error option \<times> manifest \<times> world" where
  "emitAssetsManifest h env opts output s w =
     (case (if merge opts \<noteq> MergeOff then lockSync output w else (None, w)) of
        (Some e, w1) \<Rightarrow> (Some e, s, w1)
      | (None, w1) \<Rightarrow>
          (case maybeMerge env opts (readManifest h w1) s of
             (Some e, s1) \<Rightarrow> (Some e, s1, w1)
           | (None, s1) \<Rightarrow>
               (case manifestToString h s1 of
                  Inl e \<Rightarrow> (Some e, s1, w1)
                | Inr str \<Rightarrow>
                    (case emitAsset h output str w1 of
                       (Some e, w2) \<Rightarrow> (Some e, s1, w2)
                     | (None, w2) \<Rightarrow>
                         if merge opts \<noteq> MergeOff
                         then (case unlockSync output w2 of (r, w3) \<Rightarrow> (r, s1, w3))
                         else (None, s1, w2)))))"

text \<open>\<open>writeTo(destination)\<close>: four awaited calls; a rejected one rejects \<open>writeTo\<close>.\<close>

definition writeTo :: "host \<Rightarrow> string \<Rightarrow> manifest \<Rightarrow> world \<Rightarrow> error option \<times> world" where
  "writeTo h destination s w =
     (case lock destination w of
        (Some e, w1) \<Rightarrow> (Some e, w1)
      | (None, w1) \<Rightarrow>
          (case mkdir h (dirname h destination) w1 of
             (Some e, w2) \<Rightarrow> (Some e, w2)
           | (None, w2) \<Rightarrow>
               (case manifestToString h s of
                  Inl e \<Rightarrow> (Some e, w2)
                | Inr str \<Rightarrow>
                    (case writeFile h destination str w2 of
                       (Some e, w3) \<Rightarrow> (Some e, w3)
                     | (None, w3) \<Rightarrow> unlock destination w3))))"

subsection \<open>The compiler hooks of apply\<close>

text \<open>
  The hooks of the compiler that \<open>apply\<close> taps and the method each tap calls, in the
  order of the source. A plugin that is not enabled taps nothing.
\<close>

datatype compiler_hook = BeforeRun | WatchRun | CompilationHook | AfterEmit | DoneHook

datatype handler = HandleBeforeRun | HandleCompilation | HandleAfterEmit | CallHooksDone

definition apply_taps :: "options \<Rightarrow> (compiler_hook \<times> handler) list" where
  "apply_taps opts =
     (if \<not> enabled opts then []
      else [(BeforeRun, HandleBeforeRun), (WatchRun, HandleBeforeRun),
            (CompilationHook, HandleCompilation), (AfterEmit, HandleAfterEmit),
            (DoneHook, CallHooksDone)])"

definition handlers_of :: "options \<Rightarrow> compiler_hook \<Rightarrow> handler list" where
  "handlers_of opts hook = map snd (filter (\<lambda>(h, f). h = hook) (apply_taps opts))"

text \<open>\<open>handleBeforeRun()\<close>: \<open>this.assetNames.clear()\<close>\<close>

definition handleBeforeRun :: "manifest \<Rightarrow> manifest" where
  "handleBeforeRun s = s\<lparr>assetNames := Map.empty\<rparr>"

subsection \<open>The assets object of afterOptions\<close>

text \<open>
  \<open>this.assets\<close> and \<open>this.options.assets\<close> are references to objects, and the
  \<open>afterOptions\<close> tap assigns into one of them while it reads the other. So here the
  objects live in a heap, by address, and the plugin holds two addresses.
\<close>

record plugin =
  objs :: "nat \<Rightarrow> props"
  next_ref :: nat
  this_assets :: nat
  options_assets :: nat

text \<open>
  \<open>Object.assign(target, ...sources)\<close>: for each source in turn, every own property of
  the source, as the source is at that moment, is assigned to the target.
\<close>

definition object_assign :: "(nat \<Rightarrow> props) \<Rightarrow> nat \<Rightarrow> nat list \<Rightarrow> (nat \<Rightarrow> props)" where
  "object_assign heap target sources =
     fold (\<lambda>src hp. hp(target := hp target ++ hp src)) sources heap"

text \<open>\<open>Object.create(null)\<close> of \<open>defaultOptions\<close>: a new empty object.\<close>

definition alloc :: "plugin \<Rightarrow> nat \<times> plugin" where
  "alloc p = (next_ref p, p\<lparr>objs := (objs p)(next_ref p := Map.empty), next_ref := Suc (next_ref p)\<rparr>)"

text \<open>
  The constructor: \<open>this.options = Object.assign(this.defaultOptions, options)\<close> and
  \<open>this.assets = this.options.assets\<close>. The seed is the object given as
  \<open>options.assets\<close>, if any; both fields refer to one object.
\<close>

definition construct :: "props option \<Rightarrow> plugin" where
  "construct seed =
     \<lparr>objs = (\<lambda>r. Map.empty)(0 := (case seed of None \<Rightarrow> Map.empty | Some m \<Rightarrow> m)),
      next_ref = 1, this_assets = 0, options_assets = 0\<rparr>"

text \<open>\<open>setRaw\<close> on the heap: \<open>this.assets[key] = value\<close>\<close>

definition setRaw_ref :: "plugin \<Rightarrow> string \<Rightarrow> jsval \<Rightarrow> plugin" where
  "setRaw_ref p key v = p\<lparr>objs := (objs p)(this_assets p := (objs p (this_assets p))(key \<mapsto> v))\<rparr>"

text \<open>
  The \<open>afterOptions\<close> tap, for the assets: \<open>given\<close> is the \<open>assets\<close> property of the
  options handed to the hook (\<open>None\<close> when they have none, and the new object of
  \<open>defaultOptions\<close> stays). Then
  \<open>this.assets = Object.assign(this.options.assets, this.assets, this.options.assets)\<close>.
\<close>

definition afterOptions :: "plugin \<Rightarrow> nat option \<Rightarrow> plugin" where
  "afterOptions p given =
     (let (fresh, p1) = alloc p;
          target = (case given of None \<Rightarrow> fresh | Some r \<Rightarrow> r);
          p2 = p1\<lparr>options_assets := target\<rparr>
      in p2\<lparr>objs := object_assign (objs p2) (options_assets p2) [this_assets p2, options_assets p2],
            this_assets := options_assets p2\<rparr>)"

text \<open>
  \<open>apply\<close>, for the assets: a tap of \<open>hooks.options\<close> returns options that carry a new
  object as \<open>assets\<close> (written to the heap first), or there is no such tap and the
  options of the constructor reach \<open>afterOptions\<close>.
\<close>

definition apply_options :: "plugin \<Rightarrow> props option \<Rightarrow> plugin" where
  "apply_options p replaced =
     (case replaced of
        None \<Rightarrow> afterOptions p (Some (options_assets p))
      | Some m \<Rightarrow>
          (let (r, p1) = alloc p in afterOptions (p1\<lparr>objs := (objs p1)(r := m)\<rparr>) (Some r)))"

subsection \<open>Notions for the proofs about merging\<close>

text \<open>
  The body of the loop of \<open>maybeMerge\<close> when \<open>set\<close> is the raw insert (the flag is set and
  \<open>merge\<close> is not \<open>'customize'\<close>), and the loop made of it.
\<close>

definition raw_step :: "node_env \<Rightarrow> manifest \<Rightarrow> string \<times> jsval \<Rightarrow> manifest" where
  "raw_step env s kv =
     (case kv of (key, oldValue) \<Rightarrow>
        if has_m env s key then
          (let currentValue = get_m s key JUndefined in
           if isObject oldValue \<and> isObject currentValue
           then setRaw s key (deepmerge env arrayMerge oldValue currentValue)
           else s)
        else setRaw s key oldValue)"

definition raw_merge :: "node_env \<Rightarrow> (string \<times> jsval) list \<Rightarrow> manifest \<Rightarrow> manifest" where
  "raw_merge env kvs s = fold (\<lambda>kv st. raw_step env st kv) kvs s"



section \<open>Inputs of the examples\<close>

text \<open>Stores for \<open>get\<close>: an empty string under a key, and a value under a normalized key.\<close>

definition store_empty_string :: manifest where
  "store_empty_string = new_manifest\<lparr>assets := [''a.js'' \<mapsto> JStr []]\<rparr>"

definition store_normalized :: manifest where
  "store_normalized = new_manifest\<lparr>assets := [''img/a.png'' \<mapsto> JStr ''img/a.123.png'']\<rparr>"

definition key_with_backslash :: string where
  "key_with_backslash = ''img'' @ [backslash] @ ''a.png''"

text \<open>
  An instance of the parameters for the examples. On a base that ends in a slash and a
  relative file name \<open>url.resolve\<close> appends the name; the type names are those of
  \<open>Object.prototype.toString\<close>.
\<close>

fun type_tag :: "jsval \<Rightarrow> string" where
  "type_tag JUndefined = ''Undefined''"
| "type_tag JNull = ''Null''"
| "type_tag (JBool b) = ''Boolean''"
| "type_tag (JNum n) = ''Number''"
| "type_tag (JStr s) = ''String''"
| "type_tag (JArr xs) = ''Array''"
| "type_tag (JObj kvs) = ''Object''"

text \<open>
  An instance of \<open>deepmerge\<close> for the examples: what the package gives for a source
  that is an array or a plain object, when the keys of the objects are file names and
  words such as \<open>size\<close> (no name that every object inherits, such as \<open>constructor\<close>,
  which the package skips, and no array index, which an object enumerates before its
  other keys). A value is mergeable when it is an array or an object. Two arrays are
  merged by the \<open>arrayMerge\<close> option; an array and an object are not merged, the source
  replaces the target; two objects are merged by \<open>mergeObject\<close>: the destination starts
  as the properties of the target, then each property of the source is assigned to it,
  merged with the target's property of that key when the target has the key and the
  source's value is mergeable. \<open>maybeMerge\<close> hands two objects to \<open>deepmerge\<close>, and
  \<open>mergeObject\<close> hands on a mergeable property of the source, so a scalar is never the
  source in the examples; the instance leaves it as it is.
\<close>

fun mergeable :: "jsval \<Rightarrow> bool" where
  "mergeable (JArr xs) = True"
| "mergeable (JObj kvs) = True"
| "mergeable v = False"

text \<open>\<open>destination[key] = value\<close> for each pair in turn.\<close>

definition assign_all :: "(string \<times> jsval) list \<Rightarrow> (string \<times> jsval) list \<Rightarrow> (string \<times> jsval) list" where
  "assign_all dest kvs = fold (\<lambda>(k, v). AList.update k v) kvs dest"

function deepmerge_plain :: "(jsval list \<Rightarrow> jsval list \<Rightarrow> jsval list) \<Rightarrow> jsval \<Rightarrow> jsval \<Rightarrow> jsval"
  and merged_fields :: "(jsval list \<Rightarrow> jsval list \<Rightarrow> jsval list) \<Rightarrow> (string \<times> jsval) list
       \<Rightarrow> (string \<times> jsval) list \<Rightarrow> (string \<times> jsval) list" where
  "deepmerge_plain am t (JArr xs) = (case t of JArr ys \<Rightarrow> JArr (am ys xs) | _ \<Rightarrow> JArr xs)"
| "deepmerge_plain am t (JObj sf) =
     (case t of
        JArr ys \<Rightarrow> JObj sf
      | JObj tf \<Rightarrow> JObj (assign_all tf (merged_fields am tf sf))
      | _ \<Rightarrow> JObj (assign_all [] (merged_fields am [] sf)))"
| "deepmerge_plain am t JUndefined = JUndefined"
| "deepmerge_plain am t JNull = JNull"
| "deepmerge_plain am t (JBool b) = JBool b"
| "deepmerge_plain am t (JNum n) = JNum n"
| "deepmerge_plain am t (JStr s) = JStr s"
| "merged_fields am tf [] = []"
| "merged_fields am tf ((k, v) # sf) =
     (k, case map_of tf k of
           Some tv \<Rightarrow> if mergeable v then deepmerge_plain am tv v else v
         | None \<Rightarrow> v) # merged_fields am tf sf"
  by pat_completeness auto
termination
  by (relation "measure (\<lambda>x. case x of
          Inl (am, t, s) \<Rightarrow> size s
        | Inr (am, tf, sf) \<Rightarrow> size_list (size_prod (\<lambda>_. 0) size) sf)") auto

text \<open>
  In the examples with \<open>sample_env\<close> no key of a manifest is a path into an entry of the
  store; no tap returns an entry with a value, so that \<open>===\<close> between two objects is
  not reached (it is given as true); every key is a string, so that \<open>String\<close> is not
  reached (it is given for an object); and no info of an asset has a property named as
  the first segment of a longer path, so that \<open>get\<close> leaves the path there and gives
  its default.
  In \<open>new_objects_env\<close> a tap that returns an array or an object as the value of the
  entry has built it: it is not the object that the tap was given.
\<close>

definition sample_env :: node_env where
  "sample_env =
     \<lparr>url_resolve = (\<lambda>from to. from @ to), varType = type_tag,
      has_path = (\<lambda>m k. False), get_path = (\<lambda>info name. JStr []), deepmerge = deepmerge_plain,
      same_object = (\<lambda>a b. True), to_string = (\<lambda>v. ''[object Object]'')\<rparr>"


text \<open>The options of \<open>defaultOptions\<close>, and variations of them.\<close>

definition defaultOptions :: options where
  "defaultOptions =
     \<lparr>enabled = True, merge = MergeOff, publicPath = PPNull, integrity = False,
      integrityPropertyName = ''integrity'', customize = []\<rparr>"

definition cdn_options :: options where
  "cdn_options = defaultOptions\<lparr>publicPath := PPStr ''https://cdn.example.com/''\<rparr>"

text \<open>Taps of the customize hook: one returns a string, one returns a key alone.\<close>

definition tap_returns_string :: customize_tap where
  "tap_returns_string entry original m a = Inr (JStr ''main.js'')"


definition misuse_options :: options where
  "misuse_options = cdn_options\<lparr>customize := [tap_returns_string]\<rparr>"







text \<open>A manifest after a build: one entry, one asset name.\<close>

definition after_build :: manifest where
  "after_build =
     new_manifest\<lparr>assets := [''main.js'' \<mapsto> JStr ''main.abc123.js''],
                  assetNames := [''main.js'' \<mapsto> ''main.abc123.js'']\<rparr>"

text \<open>
  The log of \<open>warn.once\<close> holds no message twice, and the cache holds the messages of
  the log.
\<close>

definition warn_inv :: "manifest \<Rightarrow> bool" where
  "warn_inv s = (distinct (warnLog s) \<and> set (warnLog s) = warnCache s)"

text \<open>
  A tap that throws on the entry of \<open>b.js\<close> and leaves every other entry as it is; a
  manifest on disk with three entries.
\<close>

definition tap_throws_on_b :: customize_tap where
  "tap_throws_on_b entry original m a =
     (if field_or original ''key'' JNull = JStr ''b.js'' then Inl (UserError ''boom'')
      else Inr JUndefined)"

definition merge_customize_options :: options where
  "merge_customize_options = defaultOptions\<lparr>merge := MergeCustomize, customize := [tap_throws_on_b]\<rparr>"

definition disk_two :: jsval where
  "disk_two = JObj [(''a.js'', JStr ''a.1.js''), (''b.js'', JStr ''b.1.js''), (''c.js'', JStr ''c.1.js'')]"

text \<open>
  Hosts: one whose calls succeed (no manifest on disk, the manifest serialized as \<open>{}\<close>),
  one whose \<open>writeFile\<close> is rejected, and one whose \<open>toString\<close> throws (a transform
  hook or a replacer that throws, a value that \<open>JSON.stringify\<close> refuses).
\<close>

definition host_ok :: host where
  "host_ok =
     \<lparr>readManifest = (\<lambda>w. None),
      manifestToString = (\<lambda>s. Inr ''{}''),
      emitAsset = (\<lambda>output src w. (None, w\<lparr>files := (files w)(output \<mapsto> src)\<rparr>)),
      dirname = (\<lambda>p. ''out''),
      mkdir = (\<lambda>d w. (None, w)),
      writeFile = (\<lambda>p str w. (None, w\<lparr>files := (files w)(p \<mapsto> str)\<rparr>))\<rparr>"

definition host_write_fails :: host where
  "host_write_fails = host_ok\<lparr>writeFile := (\<lambda>p str w. (Some FsError, w))\<rparr>"

definition host_stringify_fails :: host where
  "host_stringify_fails = host_ok\<lparr>manifestToString := (\<lambda>s. Inl StringifyError)\<rparr>"

definition empty_world :: world where
  "empty_world = \<lparr>locks = {}, files = Map.empty\<rparr>"

text \<open>
  A plugin with an entry set before \<open>apply\<close>, and the \<open>assets\<close> of the options that a
  tap of \<open>hooks.options\<close> returns.
\<close>

definition plugin_before_apply :: plugin where
  "plugin_before_apply = setRaw_ref (construct None) ''a.js'' (JStr ''set-before-apply'')"

definition options_hook_assets :: props where
  "options_hook_assets = [''a.js'' \<mapsto> JStr ''from-options'', ''b.js'' \<mapsto> JStr ''b.1.js'']"








section \<open>Properties\<close>

subsection \<open>Keys\<close>


lemma fixKey_idem: "fixKey (fixKey key) = fixKey key"
  by (induction key) (auto simp: fixKey_def)

subsection \<open>get\<close>

lemma fixKey_key_with_backslash: "fixKey key_with_backslash = ''img/a.png''"
  by (simp add: fixKey_def key_with_backslash_def backslash_def)

text \<open>
  C7, as the specification states it: \<open>get(k, d)\<close> is the value stored under \<open>k\<close>, else the
  value stored under the normalized key, and \<open>d\<close> exactly when neither exists. The code
  joins the three with \<open>||\<close>, so a stored value that is falsy is passed over: with the
  empty string stored under \<open>a.js\<close>, \<open>get('a.js', 'fallback')\<close> is \<open>'fallback'\<close>.
\<close>

theorem get_falsy_counterexample:
  "assets store_empty_string ''a.js'' = Some (JStr [])
   \<and> get_spec store_empty_string ''a.js'' (JStr ''fallback'') = JStr []
   \<and> get_m store_empty_string ''a.js'' (JStr ''fallback'') = JStr ''fallback''"
  by (simp add: store_empty_string_def new_manifest_def get_m_def get_spec_def js_or_def
      js_prop_def fixKey_def)

text \<open>
  C7, amended: when the values stored under the raw key and under the normalized key are
  truthy (as file names and objects are), \<open>get(k, d)\<close> is the value stored under the raw
  key, else the value stored under the normalized key, else \<open>d\<close>.
\<close>

theorem get_first_truthy:
  assumes "\<forall>v. assets s key = Some v \<longrightarrow> truthy v"
    and "\<forall>v. assets s (fixKey key) = Some v \<longrightarrow> truthy v"
  shows "get_m s key d = get_spec s key d"
  using assms
  by (auto simp: get_m_def get_spec_def js_or_def js_prop_def split: option.splits)

theorem get_first_truthy_witness:
  "get_m store_normalized key_with_backslash (JStr ''none'')
     = get_spec store_normalized key_with_backslash (JStr ''none'')
   \<and> get_m store_normalized key_with_backslash (JStr ''none'') = JStr ''img/a.123.png''
   \<and> get_m store_normalized ''b.js'' (JStr ''none'') = JStr ''none''"
  using get_first_truthy [of store_normalized key_with_backslash "JStr ''none''"]
    get_first_truthy [of store_normalized "''b.js''" "JStr ''none''"]
  by (simp add: fixKey_key_with_backslash store_normalized_def new_manifest_def get_spec_def
      key_with_backslash_def backslash_def fixKey_def)

subsection \<open>getPublicPath\<close>

text \<open>
  C6: \<open>getPublicPath\<close> by cases. A filename that is not a string is returned as it is.
  For a string: a \<open>publicPath\<close> function gives the result, on the filename and the
  manifest; a \<open>publicPath\<close> string is resolved with the filename by \<open>url.resolve\<close>;
  \<open>true\<close> resolves the filename against the public path of the compiler, the empty
  string when there is none; otherwise the filename is returned as it is.
\<close>

theorem getPublicPath_by_cases:
  "((\<forall>f. filename \<noteq> JStr f) \<longrightarrow> getPublicPath env opts s filename = filename)
   \<and> (publicPath opts = PPFun g \<longrightarrow> getPublicPath env opts s (JStr f) = g f s)
   \<and> (publicPath opts = PPStr p \<longrightarrow> getPublicPath env opts s (JStr f) = JStr (url_resolve env p f))
   \<and> (publicPath opts = PPBool True \<longrightarrow>
        getPublicPath env opts s (JStr f)
          = JStr (url_resolve env (case compilerPublicPath s of None \<Rightarrow> [] | Some base \<Rightarrow> base) f))
   \<and> (publicPath opts = PPBool False \<or> publicPath opts = PPNull \<longrightarrow>
        getPublicPath env opts s (JStr f) = JStr f)"
  by (cases filename) (auto simp: getPublicPath_def)

theorem getPublicPath_by_cases_witness:
  "getPublicPath sample_env cdn_options new_manifest (JNum 3) = JNum 3
   \<and> getPublicPath sample_env (defaultOptions\<lparr>publicPath := PPFun (\<lambda>f m. JStr (''/static/'' @ f))\<rparr>)
        new_manifest (JStr ''main.js'') = JStr ''/static/main.js''
   \<and> getPublicPath sample_env cdn_options new_manifest (JStr ''main.js'')
        = JStr ''https://cdn.example.com/main.js''
   \<and> getPublicPath sample_env (defaultOptions\<lparr>publicPath := PPBool True\<rparr>)
        (new_manifest\<lparr>compilerPublicPath := Some ''/assets/''\<rparr>) (JStr ''main.js'')
        = JStr ''/assets/main.js''
   \<and> getPublicPath sample_env (defaultOptions\<lparr>publicPath := PPBool True\<rparr>)
        new_manifest (JStr ''main.js'') = JStr ''main.js''
   \<and> getPublicPath sample_env defaultOptions new_manifest (JStr ''main.js'') = JStr ''main.js''"
  using getPublicPath_by_cases [where filename = "JNum 3" and env = sample_env and opts = cdn_options
      and s = new_manifest and f = "''main.js''" and p = "''https://cdn.example.com/''"]
    getPublicPath_by_cases [where env = sample_env and s = new_manifest and f = "''main.js''"
      and opts = "defaultOptions\<lparr>publicPath := PPFun (\<lambda>f m. JStr (''/static/'' @ f))\<rparr>"
      and g = "\<lambda>f m. JStr (''/static/'' @ f)"]
    getPublicPath_by_cases [where env = sample_env and f = "''main.js''"
      and opts = "defaultOptions\<lparr>publicPath := PPBool True\<rparr>"
      and s = "new_manifest\<lparr>compilerPublicPath := Some ''/assets/''\<rparr>"]
    getPublicPath_by_cases [where env = sample_env and f = "''main.js''"
      and opts = "defaultOptions\<lparr>publicPath := PPBool True\<rparr>" and s = new_manifest]
    getPublicPath_by_cases [where env = sample_env and f = "''main.js''"
      and opts = defaultOptions and s = new_manifest]
  by (simp add: sample_env_def cdn_options_def defaultOptions_def new_manifest_def)

subsection \<open>set\<close>

lemma warn_once_log:
  "warnLog (warn_once m s) = (if m \<in> warnCache s then warnLog s else warnLog s @ [m])"
  by (simp add: warn_once_def)

lemma warn_once_cache: "warnCache (warn_once m s) = insert m (warnCache s)"
  by (auto simp: warn_once_def)

lemma warn_once_assets: "assets (warn_once m s) = assets s"
  by (simp add: warn_once_def)

lemma warn_once_inv: "warn_inv s \<Longrightarrow> warn_inv (warn_once m s)"
  by (auto simp: warn_inv_def warn_once_def)

lemma misuse_call:
  "customize_call (customize misuse_options) e orig m a = Inr (JStr ''main.js'')"
  by (simp add: misuse_options_def cdn_options_def defaultOptions_def tap_returns_string_def)

text \<open>
  C3: \<open>set(key, value)\<close> where \<open>set\<close> runs the customize hook (it is not the raw insert
  of a merge) and the hook returns something that is neither an object nor \<open>false\<close>:
  no exception; the store gains exactly the normalized key with the resolved public
  path; the message is written unless \<open>warn.once\<close> has seen it, so the log never holds
  a message twice.
\<close>

theorem set_unexpected_entry:
  assumes bypass: "\<not> (isMerging s \<and> merge opts \<noteq> MergeCustomize)"
    and call: "customize_call (customize opts) (entry_of (fixKey key) (getPublicPath env opts s v))
                 (entry_of key v) s (currentAsset s) = Inr r"
    and misuse: "\<not> isObject r" "r \<noteq> JBool False"
  shows "fst (set_m env opts s key v) = None
     \<and> assets (snd (set_m env opts s key v)) = (assets s)(fixKey key \<mapsto> getPublicPath env opts s v)
     \<and> warnLog (snd (set_m env opts s key v))
         = (if unexpected_type_message env r \<in> warnCache s then warnLog s
            else warnLog s @ [unexpected_type_message env r])
     \<and> warnCache (snd (set_m env opts s key v)) = insert (unexpected_type_message env r) (warnCache s)
     \<and> (warn_inv s \<longrightarrow> warn_inv (snd (set_m env opts s key v)))"
proof -
  let ?pp = "getPublicPath env opts s v"
  let ?msg = "unexpected_type_message env r"
  have eq: "set_m env opts s key v = (None, setRaw (warn_once ?msg s) (fixKey key) ?pp)"
    using bypass call misuse by (auto simp: set_m_def Let_def)
  have inv: "warn_inv s \<longrightarrow> warn_inv (setRaw (warn_once ?msg s) (fixKey key) ?pp)"
    using warn_once_inv [of s ?msg] by (simp add: setRaw_def warn_inv_def)
  show ?thesis
    unfolding eq using inv
    by (simp add: setRaw_def warn_once_log warn_once_cache warn_once_assets)
qed

theorem set_unexpected_entry_witness:
  "assets (snd (set_m sample_env misuse_options new_manifest key_with_backslash (JStr ''a.123.png'')))
     = [''img/a.png'' \<mapsto> JStr ''https://cdn.example.com/a.123.png'']
   \<and> warnLog (snd (set_m sample_env misuse_options new_manifest key_with_backslash (JStr ''a.123.png'')))
     = [''Unexpected customize() return type: String'']
   \<and> warnLog (snd (set_m sample_env misuse_options
        (snd (set_m sample_env misuse_options new_manifest key_with_backslash (JStr ''a.123.png'')))
        ''b.js'' (JStr ''b.456.js'')))
     = [''Unexpected customize() return type: String'']
   \<and> warn_inv (snd (set_m sample_env misuse_options new_manifest key_with_backslash (JStr ''a.123.png'')))"
proof -
  let ?s1 = "snd (set_m sample_env misuse_options new_manifest key_with_backslash (JStr ''a.123.png''))"
  have nb: "\<not> (isMerging new_manifest \<and> merge misuse_options \<noteq> MergeCustomize)"
    by (simp add: new_manifest_def)
  have msg: "unexpected_type_message sample_env (JStr ''main.js'') = ''Unexpected customize() return type: String''"
    by (simp add: unexpected_type_message_def sample_env_def)
  have pp: "getPublicPath sample_env misuse_options s (JStr ''a.123.png'') = JStr ''https://cdn.example.com/a.123.png''" for s
    by (simp add: getPublicPath_def misuse_options_def cdn_options_def defaultOptions_def sample_env_def)
  note first = set_unexpected_entry [OF nb misuse_call, of sample_env key_with_backslash "JStr ''a.123.png''"]
  have one: "assets ?s1 = [''img/a.png'' \<mapsto> JStr ''https://cdn.example.com/a.123.png'']"
    "warnLog ?s1 = [''Unexpected customize() return type: String'']"
    "warnCache ?s1 = {''Unexpected customize() return type: String''}"
    using first by (simp_all add: msg pp fixKey_key_with_backslash new_manifest_def)
  have inv: "warn_inv ?s1"
    using first by (simp add: warn_inv_def new_manifest_def)
  have m1: "isMerging ?s1 = False"
    using nb by (simp add: set_m_def misuse_call Let_def setRaw_def warn_once_def new_manifest_def)
  have nb1: "\<not> (isMerging ?s1 \<and> merge misuse_options \<noteq> MergeCustomize)"
    using m1 by simp
  note second = set_unexpected_entry [OF nb1 misuse_call, of sample_env "''b.js''" "JStr ''b.456.js''"]
  have two: "warnLog (snd (set_m sample_env misuse_options ?s1 ''b.js'' (JStr ''b.456.js'')))
     = [''Unexpected customize() return type: String'']"
    using second by (simp add: msg one)
  show ?thesis using one two inv by simp
qed








subsection \<open>The start of a run\<close>

text \<open>
  C9: an enabled plugin taps \<open>beforeRun\<close> and \<open>watchRun\<close> with \<open>handleBeforeRun\<close>, which
  empties \<open>assetNames\<close> and leaves \<open>assets\<close> as they are.
\<close>

theorem run_start_clears_index:
  assumes "enabled opts" and "hook = BeforeRun \<or> hook = WatchRun"
  shows "handlers_of opts hook = [HandleBeforeRun]
     \<and> assetNames (handleBeforeRun s) = Map.empty
     \<and> assets (handleBeforeRun s) = assets s"
  using assms by (auto simp: handlers_of_def apply_taps_def handleBeforeRun_def)

theorem run_start_clears_index_witness:
  "handlers_of defaultOptions BeforeRun = [HandleBeforeRun]
   \<and> handlers_of defaultOptions WatchRun = [HandleBeforeRun]
   \<and> assetNames (handleBeforeRun after_build) ''main.js'' = None
   \<and> assets (handleBeforeRun after_build) ''main.js'' = Some (JStr ''main.abc123.js'')"
proof -
  have en: "enabled defaultOptions" by (simp add: defaultOptions_def)
  show ?thesis
    using run_start_clears_index [OF en, of BeforeRun after_build]
      run_start_clears_index [OF en, of WatchRun after_build]
    by (simp add: after_build_def new_manifest_def)
qed

subsection \<open>maybeMerge: errors and the flag\<close>

lemma maybeMerge_no_error: "fst (maybeMerge env opts parsed s) = None"
  by (simp add: maybeMerge_def split: prod.splits)

lemma maybeMerge_flag:
  "merge opts \<noteq> MergeOff \<or> \<not> isMerging s \<Longrightarrow> \<not> isMerging (snd (maybeMerge env opts parsed s))"
  by (auto simp: maybeMerge_def split: prod.splits)

lemma maybeMerge_read_failure:
  "snd (maybeMerge env opts None s) = (if merge opts = MergeOff then s else s\<lparr>isMerging := False\<rparr>)"
  by (simp add: maybeMerge_def maybeMerge_try_def)

lemma maybeMerge_null:
  "snd (maybeMerge env opts (Some JNull) s) = (if merge opts = MergeOff then s else s\<lparr>isMerging := False\<rparr>)"
  by (simp add: maybeMerge_def maybeMerge_try_def)

text \<open>
  C5: \<open>maybeMerge\<close> never throws. When the manifest on disk cannot be read or parsed,
  the store is as it was (and so is the whole manifest). After any call the flag is
  false: \<open>finally\<close> clears it when \<open>merge\<close> is on, and when \<open>merge\<close> is off the call
  leaves the flag as it found it, which is false, since only \<open>maybeMerge\<close> sets it.
\<close>

theorem maybeMerge_best_effort:
  "fst (maybeMerge env opts parsed s) = None
   \<and> assets (snd (maybeMerge env opts None s)) = assets s
   \<and> (\<not> isMerging s \<longrightarrow> snd (maybeMerge env opts None s) = s)
   \<and> (merge opts \<noteq> MergeOff \<or> \<not> isMerging s
        \<longrightarrow> \<not> isMerging (snd (maybeMerge env opts parsed s)))"
  using maybeMerge_flag [of opts s env parsed]
  by (auto simp: maybeMerge_no_error maybeMerge_read_failure)

theorem maybeMerge_best_effort_witness:
  "maybeMerge sample_env (defaultOptions\<lparr>merge := MergeOn\<rparr>) None after_build = (None, after_build)
   \<and> maybeMerge sample_env merge_customize_options (Some disk_two) new_manifest
        = (None, new_manifest\<lparr>assets := [''a.js'' \<mapsto> JStr ''a.1.js'']\<rparr>)
   \<and> maybeMerge sample_env (defaultOptions\<lparr>merge := MergeOn\<rparr>) (Some disk_two) new_manifest
        = (None, new_manifest\<lparr>assets := [''a.js'' \<mapsto> JStr ''a.1.js'', ''b.js'' \<mapsto> JStr ''b.1.js'',
                                             ''c.js'' \<mapsto> JStr ''c.1.js'']\<rparr>)"
proof -
  have a: "maybeMerge sample_env (defaultOptions\<lparr>merge := MergeOn\<rparr>) None after_build = (None, after_build)"
    using maybeMerge_best_effort [of sample_env "defaultOptions\<lparr>merge := MergeOn\<rparr>" None after_build]
    by (simp add: prod_eq_iff after_build_def new_manifest_def)
  have fk: "fixKey ''a.js'' = ''a.js''" "fixKey ''b.js'' = ''b.js''" "fixKey ''c.js'' = ''c.js''"
    by (simp_all add: fixKey_def)
  have b: "maybeMerge sample_env merge_customize_options (Some disk_two) new_manifest
        = (None, new_manifest\<lparr>assets := [''a.js'' \<mapsto> JStr ''a.1.js'']\<rparr>)"
    by (simp add: maybeMerge_def maybeMerge_try_def merge_customize_options_def defaultOptions_def
        disk_two_def new_manifest_def has_m_def lodash_has_def sample_env_def fk set_m_def
        getPublicPath_def entry_of_def tap_throws_on_b_def field_or_def untouched_def
        value_unchanged_def property_key_def setRaw_def Let_def)
  have c: "maybeMerge sample_env (defaultOptions\<lparr>merge := MergeOn\<rparr>) (Some disk_two) new_manifest
        = (None, new_manifest\<lparr>assets := [''a.js'' \<mapsto> JStr ''a.1.js'', ''b.js'' \<mapsto> JStr ''b.1.js'',
                                             ''c.js'' \<mapsto> JStr ''c.1.js'']\<rparr>)"
    by (simp add: maybeMerge_def maybeMerge_try_def defaultOptions_def
        disk_two_def new_manifest_def has_m_def lodash_has_def sample_env_def fk set_m_def setRaw_def
        Let_def)
  show ?thesis using a b c by simp
qed

subsection \<open>The lock\<close>

text \<open>
  C2, as the specification states it: the lock is released whether the protected
  operations succeed or fail. Neither path has a \<open>finally\<close>: when \<open>writeFile\<close> is
  rejected in \<open>writeTo\<close>, or \<open>toString\<close> throws in \<open>emitAssetsManifest\<close>, the call ends
  there and the lock stays held.
\<close>

theorem lock_kept_on_failure_counterexample:
  "writeTo host_write_fails ''out/assets-manifest.json'' new_manifest empty_world
     = (Some FsError, empty_world\<lparr>locks := {''out/assets-manifest.json''}\<rparr>)
   \<and> emitAssetsManifest host_stringify_fails sample_env (defaultOptions\<lparr>merge := MergeOn\<rparr>)
        ''assets-manifest.json'' new_manifest empty_world
     = (Some StringifyError, new_manifest, empty_world\<lparr>locks := {''assets-manifest.json''}\<rparr>)"
  by (simp add: writeTo_def emitAssetsManifest_def lockSync_def lock_def host_write_fails_def
      host_stringify_fails_def host_ok_def empty_world_def maybeMerge_def maybeMerge_try_def
      defaultOptions_def new_manifest_def)

text \<open>
  C2, amended: in every execution of \<open>writeTo\<close>, and of \<open>emitAssetsManifest\<close> with
  \<open>merge\<close> on, that ends without an error (the lock was acquired and each protected
  operation succeeded), the lock on the path is released at the end.
\<close>

theorem lock_released_on_success:
  "(fst (writeTo h destination s w) = None
      \<longrightarrow> destination \<notin> locks (snd (writeTo h destination s w)))
   \<and> (merge opts \<noteq> MergeOff \<and> fst (emitAssetsManifest h env opts output s w) = None
      \<longrightarrow> output \<notin> locks (snd (snd (emitAssetsManifest h env opts output s w))))"
proof -
  have a: "destination \<notin> locks (snd (writeTo h destination s w))"
    if "fst (writeTo h destination s w) = None"
    using that
    by (auto simp: writeTo_def unlock_def split: prod.splits option.splits sum.splits)
  have b: "output \<notin> locks (snd (snd (emitAssetsManifest h env opts output s w)))"
    if "merge opts \<noteq> MergeOff" "fst (emitAssetsManifest h env opts output s w) = None"
    using that
    by (auto simp: emitAssetsManifest_def unlockSync_def unlock_def
        split: prod.splits option.splits sum.splits if_splits)
  show ?thesis using a b by blast
qed

theorem lock_released_on_success_witness:
  "writeTo host_ok ''out/assets-manifest.json'' new_manifest empty_world
     = (None, empty_world\<lparr>files := [''out/assets-manifest.json'' \<mapsto> ''{}'']\<rparr>)
   \<and> emitAssetsManifest host_ok sample_env (defaultOptions\<lparr>merge := MergeOn\<rparr>) ''assets-manifest.json''
        new_manifest empty_world
     = (None, new_manifest, empty_world\<lparr>files := [''assets-manifest.json'' \<mapsto> ''{}'']\<rparr>)
   \<and> ''out/assets-manifest.json''
        \<notin> locks (snd (writeTo host_ok ''out/assets-manifest.json'' new_manifest empty_world))
   \<and> ''assets-manifest.json''
        \<notin> locks (snd (snd (emitAssetsManifest host_ok sample_env (defaultOptions\<lparr>merge := MergeOn\<rparr>)
              ''assets-manifest.json'' new_manifest empty_world)))"
proof -
  have a: "writeTo host_ok ''out/assets-manifest.json'' new_manifest empty_world
     = (None, empty_world\<lparr>files := [''out/assets-manifest.json'' \<mapsto> ''{}'']\<rparr>)"
    by (simp add: writeTo_def lock_def unlock_def host_ok_def empty_world_def)
  have b: "emitAssetsManifest host_ok sample_env (defaultOptions\<lparr>merge := MergeOn\<rparr>) ''assets-manifest.json''
        new_manifest empty_world
     = (None, new_manifest, empty_world\<lparr>files := [''assets-manifest.json'' \<mapsto> ''{}'']\<rparr>)"
    by (simp add: emitAssetsManifest_def lockSync_def unlockSync_def lock_def unlock_def host_ok_def
        empty_world_def maybeMerge_def maybeMerge_try_def defaultOptions_def new_manifest_def)
  have m: "merge (defaultOptions\<lparr>merge := MergeOn\<rparr>) \<noteq> MergeOff"
    by (simp add: defaultOptions_def)
  show ?thesis
    using lock_released_on_success [of host_ok "''out/assets-manifest.json''" new_manifest empty_world
        "defaultOptions\<lparr>merge := MergeOn\<rparr>" sample_env "''assets-manifest.json''"] m
    by (simp add: a b)
qed

subsection \<open>The assets of afterOptions\<close>

lemma map_add_self: "m ++ m = m"
  by (rule ext) (simp add: map_add_def split: option.splits)

lemma object_assign_twice:
  "object_assign hp t [a, t] t = hp t ++ hp a"
  by (simp add: object_assign_def map_add_self)

lemma afterOptions_assets:
  assumes "r \<noteq> next_ref p" and "this_assets p \<noteq> next_ref p"
  shows "this_assets (afterOptions p (Some r)) = r"
    and "objs (afterOptions p (Some r)) r = objs p r ++ objs p (this_assets p)"
  using assms by (simp_all add: afterOptions_def alloc_def object_assign_def Let_def map_add_self)

text \<open>
  C10: the comment in the \<open>afterOptions\<close> tap says that for a key in both
  \<open>this.assets\<close> and \<open>options.assets\<close> the value of \<open>options.assets\<close> should be used.
  The target of \<open>Object.assign\<close> is \<open>options.assets\<close> itself, so when the two are
  different objects the entry of the manifest has overwritten the one of the options
  before the options are read as the last source: the entry set before \<open>apply\<close> is the
  one stored. (The entries of both are kept, as \<open>afterOptions_assets\<close> says.)
\<close>

theorem afterOptions_manifest_entry_wins:
  "objs (apply_options plugin_before_apply (Some options_hook_assets))
        (this_assets (apply_options plugin_before_apply (Some options_hook_assets))) ''a.js''
     = Some (JStr ''set-before-apply'')
   \<and> options_hook_assets ''a.js'' = Some (JStr ''from-options'')
   \<and> objs (apply_options plugin_before_apply (Some options_hook_assets))
        (this_assets (apply_options plugin_before_apply (Some options_hook_assets))) ''b.js''
     = Some (JStr ''b.1.js'')"
  by (simp add: apply_options_def afterOptions_def alloc_def object_assign_def Let_def
      plugin_before_apply_def setRaw_ref_def construct_def options_hook_assets_def map_add_def)

subsection \<open>The loop of maybeMerge as raw inserts\<close>

lemma raw_step_flag: "isMerging (raw_step env s kv) = isMerging s"
  by (cases kv) (simp add: raw_step_def setRaw_def Let_def)

lemma raw_merge_Nil: "raw_merge env [] s = s"
  by (simp add: raw_merge_def)

lemma raw_merge_Cons: "raw_merge env (kv # kvs) s = raw_merge env kvs (raw_step env s kv)"
  by (simp add: raw_merge_def)


lemma raw_merge_flag: "isMerging (raw_merge env kvs s) = isMerging s"
  by (induction kvs arbitrary: s) (simp_all add: raw_merge_Nil raw_merge_Cons raw_step_flag)












subsection \<open>Merging twice\<close>
















end
